theory Spec2Isabelle
  imports Complex_Main "HOL-Library.AList"
begin

section \<open>Python values used by the application\<close>

text \<open>
  \<^verbatim>\<open>datetime.now()\<close> reads the wall clock. The model takes every clock reading as an
  argument \<open>now\<close> of the operation that reads it; a reading is a number of ticks.
\<close>

type_synonym datetime = nat

text \<open>
  The exceptions the modelled code can raise: FastAPI's \<^verbatim>\<open>HTTPException(status_code, detail)\<close>,
  the \<^verbatim>\<open>ValueError\<close> and the \<^verbatim>\<open>OverflowError\<close> of \<^verbatim>\<open>time.sleep\<close> on a duration that is negative
  or too long, and the \<^verbatim>\<open>KeyError\<close> of a dictionary subscript on a missing key.
\<close>

datatype py_error = HTTPException int string | ValueError | OverflowError | KeyError

text \<open>
  A Python \<^verbatim>\<open>dict\<close> keeps its keys in insertion order: it is an association list with
  distinct keys. \<^verbatim>\<open>d.get(k)\<close> is \<open>dict_get\<close>, \<^verbatim>\<open>d[k] = v\<close> is \<open>dict_set\<close> (the value of a
  key already present is replaced where it stands, a new key goes to the end),
  \<^verbatim>\<open>k in d\<close> is \<open>dict_contains\<close> and \<^verbatim>\<open>d.values()\<close> is \<open>dict_values\<close>. The subscript
  \<^verbatim>\<open>d[k]\<close> is \<open>dict_item\<close> and \<^verbatim>\<open>del d[k]\<close> is \<open>dict_del\<close>: both raise \<^verbatim>\<open>KeyError\<close> on a
  key that is not in the dictionary.
\<close>

definition dict_get :: "('k \<times> 'v) list \<Rightarrow> 'k \<Rightarrow> 'v option" where
  "dict_get d k = map_of d k"

definition dict_set :: "('k \<times> 'v) list \<Rightarrow> 'k \<Rightarrow> 'v \<Rightarrow> ('k \<times> 'v) list" where
  "dict_set d k v = AList.update k v d"

definition dict_contains :: "('k \<times> 'v) list \<Rightarrow> 'k \<Rightarrow> bool" where
  "dict_contains d k = (map_of d k \<noteq> None)"

definition dict_item :: "('k \<times> 'v) list \<Rightarrow> 'k \<Rightarrow> py_error + 'v" where
  "dict_item d k = (case map_of d k of None \<Rightarrow> Inl KeyError | Some v \<Rightarrow> Inr v)"

definition dict_del :: "('k \<times> 'v) list \<Rightarrow> 'k \<Rightarrow> py_error + ('k \<times> 'v) list" where
  "dict_del d k = (if dict_contains d k then Inr (AList.delete k d) else Inl KeyError)"

definition dict_values :: "('k \<times> 'v) list \<Rightarrow> 'v list" where
  "dict_values d = map snd d"

text \<open>\<^verbatim>\<open>str(n)\<close> of an integer: its decimal digits, with a minus sign when negative.\<close>

definition digit_char :: "nat \<Rightarrow> char" where
  "digit_char d = ''0123456789'' ! d"

fun str_nat :: "nat \<Rightarrow> string" where
  "str_nat n = (if n < 10 then [digit_char n] else str_nat (n div 10) @ [digit_char (n mod 10)])"

declare str_nat.simps [simp del]

definition str_int :: "int \<Rightarrow> string" where
  "str_int i = (if i < 0 then ''-'' @ str_nat (nat (- i)) else str_nat (nat i))"

text \<open>\<^verbatim>\<open>sep.join(xs)\<close>.\<close>

fun str_join :: "string \<Rightarrow> string list \<Rightarrow> string" where
  "str_join sep [] = []"
| "str_join sep [x] = x"
| "str_join sep (x # y # ys) = x @ sep @ str_join sep (y # ys)"

text \<open>
  \<^verbatim>\<open>time.sleep(secs)\<close> raises \<^verbatim>\<open>ValueError\<close> on a negative duration. The interpreter keeps a
  duration as a signed 64-bit number of nanoseconds, and \<^verbatim>\<open>time.sleep\<close> raises
  \<^verbatim>\<open>OverflowError\<close> on a duration that this number cannot hold: \<open>sleep_max\<close> is that limit
  in seconds. Otherwise the call returns after the wait. A duration is a real number here:
  the floating-point values that are no number are not modelled.
\<close>

definition sleep_max :: real where
  "sleep_max = 2 ^ 63 / 10 ^ 9"

definition sleep :: "real \<Rightarrow> py_error + unit" where
  "sleep secs =
     (if secs < 0 then Inl ValueError
      else if sleep_max < secs then Inl OverflowError
      else Inr ())"

text \<open>
  The number that a string of decimal digits denotes. No function of the application
  computes it: it says what the digits of \<^verbatim>\<open>str(n)\<close> mean.
\<close>

definition decimal_value :: "string \<Rightarrow> nat" where
  "decimal_value s = foldl (\<lambda>n c. 10 * n + (of_char c - 48)) 0 s"

section \<open>models.py\<close>

record Task =
  id' :: int
  title :: string
  description :: "string option"
  status :: string
  created_at :: datetime
  updated_at :: datetime

record TaskCreate =
  title :: string
  description :: "string option"
  status :: string

record TaskUpdate =
  title :: "string option"
  description :: "string option"
  status :: "string option"

record ProcessJob =
  id' :: string
  status :: string
  data :: "string list"
  result :: "string option"
  created_at :: datetime
  completed_at :: "datetime option"

section \<open>storage.py\<close>

subsection \<open>TaskStorage\<close>

record TaskStorage =
  tasks :: "(int \<times> Task) list"
  next_id :: int

text \<open>\<^verbatim>\<open>TaskStorage.__init__\<close>\<close>

definition TaskStorage_init :: TaskStorage where
  "TaskStorage_init = \<lparr>tasks = [], next_id = 1\<rparr>"

text \<open>
  Every method takes the object \<open>self\<close> and returns its result with the object after the
  call. A method that reads the clock takes the reading as its last argument. A parameter
  that has the name of a field is written with a prime. A model object is always true in
  a condition, so \<^verbatim>\<open>if not task\<close> and \<^verbatim>\<open>if not job\<close> test for \<^verbatim>\<open>None\<close>.
\<close>

definition TaskStorage_create ::
  "TaskStorage \<Rightarrow> string \<Rightarrow> string option \<Rightarrow> string \<Rightarrow> datetime \<Rightarrow> Task \<times> TaskStorage" where
  "TaskStorage_create self title' description' status' now =
     (let task = \<lparr>Task.id' = next_id self, Task.title = title', Task.description = description',
                  Task.status = status', Task.created_at = now, Task.updated_at = now\<rparr>
      in (task, \<lparr>tasks = dict_set (tasks self) (next_id self) task,
                 next_id = next_id self + 1\<rparr>))"

definition TaskStorage_get :: "TaskStorage \<Rightarrow> int \<Rightarrow> Task option \<times> TaskStorage" where
  "TaskStorage_get self task_id = (dict_get (tasks self) task_id, self)"

text \<open>
  \<^verbatim>\<open>if status:\<close> is false for \<^verbatim>\<open>None\<close> and for the empty string.
\<close>

definition TaskStorage_get_all :: "TaskStorage \<Rightarrow> string option \<Rightarrow> Task list \<times> TaskStorage" where
  "TaskStorage_get_all self status' =
     (case status' of
        None \<Rightarrow> (dict_values (tasks self), self)
      | Some s \<Rightarrow>
          if s \<noteq> [] then (filter (\<lambda>task. Task.status task = s) (dict_values (tasks self)), self)
          else (dict_values (tasks self), self))"

text \<open>
  \<^verbatim>\<open>update\<close> changes the stored object in place: the entry keeps its key and its place
  in the dictionary.
\<close>

definition TaskStorage_update ::
  "TaskStorage \<Rightarrow> int \<Rightarrow> string option \<Rightarrow> string option \<Rightarrow> string option \<Rightarrow> datetime
     \<Rightarrow> Task option \<times> TaskStorage" where
  "TaskStorage_update self task_id title' description' status' now =
     (case dict_get (tasks self) task_id of
        None \<Rightarrow> (None, self)
      | Some task \<Rightarrow>
          let task1 = (case title' of None \<Rightarrow> task | Some v \<Rightarrow> task\<lparr>Task.title := v\<rparr>);
              task2 = (case description' of None \<Rightarrow> task1
                       | Some v \<Rightarrow> task1\<lparr>Task.description := Some v\<rparr>);
              task3 = (case status' of None \<Rightarrow> task2 | Some v \<Rightarrow> task2\<lparr>Task.status := v\<rparr>);
              task4 = task3\<lparr>Task.updated_at := now\<rparr>
          in (Some task4, self\<lparr>tasks := dict_set (tasks self) task_id task4\<rparr>))"

definition TaskStorage_delete ::
  "TaskStorage \<Rightarrow> int \<Rightarrow> py_error + (bool \<times> TaskStorage)" where
  "TaskStorage_delete self task_id =
     (if dict_contains (tasks self) task_id
      then (case dict_del (tasks self) task_id of
              Inl e \<Rightarrow> Inl e
            | Inr d \<Rightarrow> Inr (True, self\<lparr>tasks := d\<rparr>))
      else Inr (False, self))"

subsection \<open>JobStorage\<close>

record JobStorage =
  jobs :: "(string \<times> ProcessJob) list"

definition JobStorage_init :: JobStorage where
  "JobStorage_init = \<lparr>jobs = []\<rparr>"

definition JobStorage_create ::
  "JobStorage \<Rightarrow> string \<Rightarrow> string list \<Rightarrow> datetime \<Rightarrow> ProcessJob \<times> JobStorage" where
  "JobStorage_create self job_id data' now =
     (let job = \<lparr>ProcessJob.id' = job_id, ProcessJob.status = ''queued'', data = data',
                 result = None, ProcessJob.created_at = now, completed_at = None\<rparr>
      in (job, self\<lparr>jobs := dict_set (jobs self) job_id job\<rparr>))"

definition JobStorage_get :: "JobStorage \<Rightarrow> string \<Rightarrow> ProcessJob option \<times> JobStorage" where
  "JobStorage_get self job_id = (dict_get (jobs self) job_id, self)"

text \<open>The clock is read only when \<open>status\<close> is \<^verbatim>\<open>"completed"\<close>; \<open>now\<close> is that reading.\<close>

definition JobStorage_update_status ::
  "JobStorage \<Rightarrow> string \<Rightarrow> string \<Rightarrow> string option \<Rightarrow> datetime
     \<Rightarrow> ProcessJob option \<times> JobStorage" where
  "JobStorage_update_status self job_id status' result' now =
     (case dict_get (jobs self) job_id of
        None \<Rightarrow> (None, self)
      | Some job \<Rightarrow>
          let job1 = job\<lparr>ProcessJob.status := status'\<rparr>;
              job2 = (case result' of None \<Rightarrow> job1 | Some r \<Rightarrow> job1\<lparr>result := Some r\<rparr>);
              job3 = (if status' = ''completed'' then job2\<lparr>completed_at := Some now\<rparr> else job2)
          in (Some job3, self\<lparr>jobs := dict_set (jobs self) job_id job3\<rparr>))"

section \<open>main.py\<close>

text \<open>The two module-level stores \<^verbatim>\<open>task_storage\<close> and \<^verbatim>\<open>job_storage\<close>.\<close>

record app =
  task_storage :: TaskStorage
  job_storage :: JobStorage

definition app_init :: app where
  "app_init = \<lparr>task_storage = TaskStorage_init, job_storage = JobStorage_init\<rparr>"

definition HTTP_400_BAD_REQUEST :: int where
  "HTTP_400_BAD_REQUEST = 400"

definition HTTP_404_NOT_FOUND :: int where
  "HTTP_404_NOT_FOUND = 404"

text \<open>
  A handler takes the application state and returns the raised exception or the returned
  value, with the state after the call.
\<close>

definition create_task :: "app \<Rightarrow> TaskCreate \<Rightarrow> datetime \<Rightarrow> (py_error + Task) \<times> app" where
  "create_task st task_data now =
     (let (task, ts) = TaskStorage_create (task_storage st) (TaskCreate.title task_data)
                         (TaskCreate.description task_data) (TaskCreate.status task_data) now
      in (Inr task, st\<lparr>task_storage := ts\<rparr>))"

text \<open>\<^verbatim>\<open>if status_filter and status_filter not in [...]\<close>: the first conjunct is false for
  \<^verbatim>\<open>None\<close> and for the empty string.\<close>

definition list_tasks :: "app \<Rightarrow> string option \<Rightarrow> (py_error + Task list) \<times> app" where
  "list_tasks st status_filter =
     (if (case status_filter of
            None \<Rightarrow> False
          | Some s \<Rightarrow> s \<noteq> [] \<and> s \<notin> set [''pending'', ''in_progress'', ''completed''])
      then (Inl (HTTPException HTTP_400_BAD_REQUEST
                  ''Invalid status filter. Must be: pending, in_progress, or completed''), st)
      else (let (ts_list, ts) = TaskStorage_get_all (task_storage st) status_filter
            in (Inr ts_list, st\<lparr>task_storage := ts\<rparr>)))"

definition get_task :: "app \<Rightarrow> int \<Rightarrow> (py_error + Task) \<times> app" where
  "get_task st task_id =
     (let (task, ts) = TaskStorage_get (task_storage st) task_id;
          st1 = st\<lparr>task_storage := ts\<rparr>
      in case task of
           None \<Rightarrow> (Inl (HTTPException HTTP_404_NOT_FOUND
                         (''Task with id '' @ str_int task_id @ '' not found'')), st1)
         | Some t \<Rightarrow> (Inr t, st1))"

definition update_task :: "app \<Rightarrow> int \<Rightarrow> TaskUpdate \<Rightarrow> datetime \<Rightarrow> (py_error + Task) \<times> app" where
  "update_task st task_id task_data now =
     (let (task, ts) = TaskStorage_update (task_storage st) task_id (TaskUpdate.title task_data)
                         (TaskUpdate.description task_data) (TaskUpdate.status task_data) now;
          st1 = st\<lparr>task_storage := ts\<rparr>
      in case task of
           None \<Rightarrow> (Inl (HTTPException HTTP_404_NOT_FOUND
                         (''Task with id '' @ str_int task_id @ '' not found'')), st1)
         | Some t \<Rightarrow> (Inr t, st1))"

definition delete_task :: "app \<Rightarrow> int \<Rightarrow> (py_error + unit) \<times> app" where
  "delete_task st task_id =
     (case TaskStorage_delete (task_storage st) task_id of
        Inl e \<Rightarrow> (Inl e, st)
      | Inr (deleted, ts) \<Rightarrow>
          let st1 = st\<lparr>task_storage := ts\<rparr>
          in if \<not> deleted
             then (Inl (HTTPException HTTP_404_NOT_FOUND
                         (''Task with id '' @ str_int task_id @ '' not found'')), st1)
             else (Inr (), st1))"

text \<open>
  The runner writes the job store twice, with \<^verbatim>\<open>time.sleep(delay)\<close> in between. The model
  returns the store after each write, in order, and how the call ended. \<open>now1\<close> and
  \<open>now2\<close> are the clock at the first and at the second \<^verbatim>\<open>update_status\<close>. The line the
  runner prints at the end is not modelled.
\<close>

definition process_job_background ::
  "JobStorage \<Rightarrow> string \<Rightarrow> string list \<Rightarrow> real \<Rightarrow> datetime \<Rightarrow> datetime
     \<Rightarrow> JobStorage list \<times> (py_error + unit)" where
  "process_job_background js job_id data' delay now1 now2 =
     (let (_, js1) = JobStorage_update_status js job_id ''processing'' None now1
      in case sleep delay of
           Inl e \<Rightarrow> ([js1], Inl e)
         | Inr _ \<Rightarrow>
             let result' = ''Processed '' @ str_nat (length data') @ '' items: ''
                            @ str_join '', '' data';
                 (_, js2) = JobStorage_update_status js1 job_id ''completed'' (Some result') now2
             in ([js1, js2], Inr ()))"

definition get_job_status :: "app \<Rightarrow> string \<Rightarrow> (py_error + ProcessJob) \<times> app" where
  "get_job_status st job_id =
     (let (job, js) = JobStorage_get (job_storage st) job_id;
          st1 = st\<lparr>job_storage := js\<rparr>
      in case job of
           None \<Rightarrow> (Inl (HTTPException HTTP_404_NOT_FOUND
                         (''Job with id '' @ job_id @ '' not found'')), st1)
         | Some j \<Rightarrow> (Inr j, st1))"

definition error_messages :: "(int \<times> string) list" where
  "error_messages =
     [(400, ''Bad Request - Invalid input''),
      (401, ''Unauthorized - Authentication required''),
      (403, ''Forbidden - Access denied''),
      (404, ''Not Found - Resource does not exist''),
      (500, ''Internal Server Error - Something went wrong''),
      (503, ''Service Unavailable - Service is temporarily unavailable'')]"

text \<open>\<^verbatim>\<open>trigger_error\<close> always raises; the model returns the exception.\<close>

definition trigger_error :: "int \<Rightarrow> py_error" where
  "trigger_error code =
     (let code1 = (if \<not> dict_contains error_messages code then 500 else code)
      in case dict_item error_messages code1 of
           Inl e \<Rightarrow> e
         | Inr detail \<Rightarrow> HTTPException code1 detail)"

section \<open>Sequences of calls on the task store\<close>

text \<open>
  A client of the task store makes any sequence of calls of its five methods. \<open>run\<close>
  makes the calls in order, and \<open>assigned_ids\<close> lists the ids that the \<^verbatim>\<open>create\<close> calls
  of the sequence assign, in the order of the calls. A call that raises leaves the store
  as it was.
\<close>

datatype task_call =
  Create string "string option" string datetime
| Get int
| Get_all "string option"
| Update int "string option" "string option" "string option" datetime
| Delete int

fun is_Create :: "task_call \<Rightarrow> bool" where
  "is_Create (Create t d s now) = True"
| "is_Create (Get i) = False"
| "is_Create (Get_all f) = False"
| "is_Create (Update i t d s now) = False"
| "is_Create (Delete i) = False"

fun apply_call :: "TaskStorage \<Rightarrow> task_call \<Rightarrow> TaskStorage" where
  "apply_call self (Create t d s now) = snd (TaskStorage_create self t d s now)"
| "apply_call self (Get i) = snd (TaskStorage_get self i)"
| "apply_call self (Get_all f) = snd (TaskStorage_get_all self f)"
| "apply_call self (Update i t d s now) = snd (TaskStorage_update self i t d s now)"
| "apply_call self (Delete i) =
     (case TaskStorage_delete self i of Inl e \<Rightarrow> self | Inr (deleted, self1) \<Rightarrow> self1)"

fun assigned_id :: "TaskStorage \<Rightarrow> task_call \<Rightarrow> int list" where
  "assigned_id self (Create t d s now) = [Task.id' (fst (TaskStorage_create self t d s now))]"
| "assigned_id self (Get i) = []"
| "assigned_id self (Get_all f) = []"
| "assigned_id self (Update i t d s now) = []"
| "assigned_id self (Delete i) = []"

fun run :: "TaskStorage \<Rightarrow> task_call list \<Rightarrow> TaskStorage" where
  "run self [] = self"
| "run self (c # cs) = run (apply_call self c) cs"

fun assigned_ids :: "TaskStorage \<Rightarrow> task_call list \<Rightarrow> int list" where
  "assigned_ids self [] = []"
| "assigned_ids self (c # cs) = assigned_id self c @ assigned_ids (apply_call self c) cs"

text \<open>
  The shape of a task dictionary that the calls keep: the keys ascend in the order of the
  entries, every key is below \<open>next_id\<close>, and every task is stored under its own id.
\<close>

definition keys_ok :: "TaskStorage \<Rightarrow> bool" where
  "keys_ok self =
     (sorted_wrt (<) (map fst (tasks self))
      \<and> list_all (\<lambda>k. k < next_id self) (map fst (tasks self))
      \<and> list_all (\<lambda>(k, t). Task.id' t = k) (tasks self))"

section \<open>The invariant of the job store\<close>

text \<open>
  The data model's invariant on a job, in its words: \<^verbatim>\<open>completed_at\<close> is set if and only if
  the status is \<^verbatim>\<open>completed\<close>. \<open>job_invariant\<close> says it of every job of a store.
\<close>

definition completed_at_iff_completed :: "ProcessJob \<Rightarrow> bool" where
  "completed_at_iff_completed job =
     ((completed_at job \<noteq> None) = (ProcessJob.status job = ''completed''))"

definition job_invariant :: "JobStorage \<Rightarrow> bool" where
  "job_invariant self = list_all completed_at_iff_completed (dict_values (jobs self))"

section \<open>Dictionaries\<close>

lemma dict_get_set: "dict_get (dict_set d k v) k' = (if k' = k then Some v else dict_get d k')"
  by (simp add: dict_get_def dict_set_def update_conv')

lemma dict_get_delete: "dict_get (AList.delete k d) k' = (if k' = k then None else dict_get d k')"
  by (simp add: dict_get_def delete_conv')

lemma dict_contains_get: "dict_contains d k = (dict_get d k \<noteq> None)"
  by (simp add: dict_contains_def dict_get_def)

lemma dict_del_present: "dict_get d k \<noteq> None \<Longrightarrow> dict_del d k = Inr (AList.delete k d)"
  by (simp add: dict_del_def dict_contains_get)

lemma dict_set_keys: "dict_get d k \<noteq> None \<Longrightarrow> map fst (dict_set d k v) = map fst d"
  by (simp add: dict_get_def dict_set_def update_keys map_of_eq_None_iff)

lemma dict_set_fresh: "k \<notin> fst ` set d \<Longrightarrow> dict_set d k v = d @ [(k, v)]"
  unfolding dict_set_def by (induction d) auto

lemma dict_set_present_values:
  "map f (dict_values (dict_set d k v)) = map f (dict_values d)" if "dict_get d k = Some w" "f v = f w"
  using that unfolding dict_set_def dict_values_def dict_get_def
  by (induction d) (auto split: if_splits)

lemma update_entries:
  "(a, b) \<in> set (AList.update k v d) \<Longrightarrow> (a, b) \<in> set d \<or> (a = k \<and> b = v)"
  by (induction d) (auto split: if_splits)

lemma dict_set_values_all:
  "list_all P (dict_values d) \<Longrightarrow> P v \<Longrightarrow> list_all P (dict_values (dict_set d k v))"
  unfolding dict_values_def dict_set_def by (induction d) auto

lemma dict_get_values: "dict_get d k = Some v \<Longrightarrow> v \<in> set (dict_values d)"
  unfolding dict_get_def dict_values_def by (force dest: map_of_SomeD)

lemma filter_snd_entries:
  "list_all (\<lambda>(k, t). f t = k) d \<Longrightarrow> map snd (filter (\<lambda>(k, t). i \<noteq> k) d) = filter (\<lambda>t. f t \<noteq> i) (map snd d)"
  by (induction d) auto

lemma own_id_keys:
  "list_all (\<lambda>(k, t). Task.id' t = k) d \<Longrightarrow> map Task.id' (map snd d) = map fst d"
  by (induction d) auto

section \<open>The error-simulation endpoint\<close>

text \<open>
  C8. A code outside 400, 401, 403, 404, 500, 503 gives exactly the exception of code 500
  (status code 500 and its message), and each code of the set gives that code with its
  own fixed message.
\<close>

theorem trigger_error_codes:
  "(code \<notin> {400, 401, 403, 404, 500, 503} \<longrightarrow> trigger_error code = trigger_error 500)
   \<and> trigger_error 400 = HTTPException 400 ''Bad Request - Invalid input''
   \<and> trigger_error 401 = HTTPException 401 ''Unauthorized - Authentication required''
   \<and> trigger_error 403 = HTTPException 403 ''Forbidden - Access denied''
   \<and> trigger_error 404 = HTTPException 404 ''Not Found - Resource does not exist''
   \<and> trigger_error 500 = HTTPException 500 ''Internal Server Error - Something went wrong''
   \<and> trigger_error 503
       = HTTPException 503 ''Service Unavailable - Service is temporarily unavailable''"
  by (simp add: trigger_error_def error_messages_def dict_contains_def dict_item_def)

theorem trigger_error_codes_witness:
  "(418::int) \<notin> {400, 401, 403, 404, 500, 503}
   \<and> trigger_error 418 = trigger_error 500
   \<and> trigger_error 418 = HTTPException 500 ''Internal Server Error - Something went wrong''"
  using trigger_error_codes [of 418] by simp

section \<open>Deleting a task\<close>

text \<open>
  C7. \<^verbatim>\<open>delete\<close> returns, without raising, whether a task with the id was stored: true
  exactly when it was, and then the task is removed; false when it was not, and then the
  store is as before. After the call the id is not in the store, the other tasks and
  \<open>next_id\<close> are as before, and \<^verbatim>\<open>get_task\<close> on the id answers 404. \<^verbatim>\<open>delete_task\<close> answers
  404 instead of raising another exception when the id is absent.
\<close>

theorem delete_task_found:
  "(\<exists>self'. TaskStorage_delete self i = Inr (fst (TaskStorage_get self i) \<noteq> None, self')
      \<and> fst (TaskStorage_get self' i) = None
      \<and> (\<forall>j. j \<noteq> i \<longrightarrow> fst (TaskStorage_get self' j) = fst (TaskStorage_get self j))
      \<and> next_id self' = next_id self
      \<and> (fst (TaskStorage_get self i) = None \<longrightarrow> self' = self))
   \<and> fst (delete_task st i)
       = (if fst (TaskStorage_get (task_storage st) i) \<noteq> None then Inr ()
          else Inl (HTTPException 404 (''Task with id '' @ str_int i @ '' not found'')))
   \<and> fst (get_task (snd (delete_task st i)) i)
       = Inl (HTTPException 404 (''Task with id '' @ str_int i @ '' not found''))"
proof (intro conjI)
  show "\<exists>self'. TaskStorage_delete self i = Inr (fst (TaskStorage_get self i) \<noteq> None, self')
      \<and> fst (TaskStorage_get self' i) = None
      \<and> (\<forall>j. j \<noteq> i \<longrightarrow> fst (TaskStorage_get self' j) = fst (TaskStorage_get self j))
      \<and> next_id self' = next_id self
      \<and> (fst (TaskStorage_get self i) = None \<longrightarrow> self' = self)"
  proof (cases "dict_get (tasks self) i")
    case None
    then show ?thesis
      by (simp add: TaskStorage_delete_def TaskStorage_get_def dict_contains_get)
  next
    case (Some t)
    then show ?thesis
      by (simp add: TaskStorage_delete_def TaskStorage_get_def dict_contains_get
          dict_del_present dict_get_delete)
  qed
next
  show "fst (delete_task st i)
       = (if fst (TaskStorage_get (task_storage st) i) \<noteq> None then Inr ()
          else Inl (HTTPException 404 (''Task with id '' @ str_int i @ '' not found'')))"
    by (cases "dict_get (tasks (task_storage st)) i")
      (simp_all add: delete_task_def TaskStorage_delete_def TaskStorage_get_def dict_contains_get
        dict_del_present HTTP_404_NOT_FOUND_def)
next
  show "fst (get_task (snd (delete_task st i)) i)
       = Inl (HTTPException 404 (''Task with id '' @ str_int i @ '' not found''))"
    by (cases "dict_get (tasks (task_storage st)) i")
      (simp_all add: delete_task_def get_task_def TaskStorage_delete_def TaskStorage_get_def
        dict_contains_get dict_del_present dict_get_delete HTTP_404_NOT_FOUND_def)
qed

theorem delete_task_found_witness:
  "TaskStorage_delete \<lparr>tasks = [(1, \<lparr>Task.id' = 1, title = ''T'', description = None,
        status = ''pending'', created_at = 5, updated_at = 5\<rparr>)], next_id = 2\<rparr> 1
     = Inr (True, \<lparr>tasks = [], next_id = 2\<rparr>)
   \<and> TaskStorage_delete \<lparr>tasks = [], next_id = 2\<rparr> 1 = Inr (False, \<lparr>tasks = [], next_id = 2\<rparr>)
   \<and> fst (get_task (snd (delete_task \<lparr>task_storage = \<lparr>tasks = [(1, \<lparr>Task.id' = 1, title = ''T'',
        description = None, status = ''pending'', created_at = 5, updated_at = 5\<rparr>)], next_id = 2\<rparr>,
        job_storage = JobStorage_init\<rparr> 1)) 1)
     = Inl (HTTPException 404 ''Task with id 1 not found'')"
  using delete_task_found [of "\<lparr>tasks = [(1, \<lparr>Task.id' = 1, title = ''T'', description = None,
        status = ''pending'', created_at = 5, updated_at = 5\<rparr>)], next_id = 2\<rparr>" 1
      "\<lparr>task_storage = \<lparr>tasks = [(1, \<lparr>Task.id' = 1, title = ''T'',
        description = None, status = ''pending'', created_at = 5, updated_at = 5\<rparr>)], next_id = 2\<rparr>,
        job_storage = JobStorage_init\<rparr>"]
    delete_task_found [of "\<lparr>tasks = [], next_id = 2\<rparr>" 1]
  by (simp add: TaskStorage_delete_def dict_del_def dict_contains_def delete_task_def get_task_def
      TaskStorage_get_def dict_get_def HTTP_404_NOT_FOUND_def str_int_def str_nat.simps
      digit_char_def)

section \<open>Updating a task\<close>

text \<open>
  C4, as the code has it. For a stored task, \<^verbatim>\<open>update\<close> replaces each field that is given
  and leaves each field that is \<^verbatim>\<open>None\<close> as it was; \<^verbatim>\<open>updated_at\<close> becomes the clock reading of
  the call whatever the fields are, so it is at or above the previous \<^verbatim>\<open>updated_at\<close> exactly
  when that reading is; the id, \<^verbatim>\<open>created_at\<close>, the other tasks, the order of the keys and
  \<open>next_id\<close> are as before. For an id that is not stored, \<^verbatim>\<open>update\<close> returns \<^verbatim>\<open>None\<close>,
  \<^verbatim>\<open>update_task\<close> answers 404, and the store is unchanged.
\<close>

theorem update_task_fields:
  "(fst (TaskStorage_get self i) = Some t \<longrightarrow>
      (\<exists>t' self'. TaskStorage_update self i title' description' status' now = (Some t', self')
         \<and> fst (TaskStorage_get self' i) = Some t'
         \<and> Task.title t' = (case title' of None \<Rightarrow> Task.title t | Some v \<Rightarrow> v)
         \<and> Task.description t'
             = (case description' of None \<Rightarrow> Task.description t | Some v \<Rightarrow> Some v)
         \<and> Task.status t' = (case status' of None \<Rightarrow> Task.status t | Some v \<Rightarrow> v)
         \<and> Task.updated_at t' = now
         \<and> (Task.updated_at t \<le> Task.updated_at t') = (Task.updated_at t \<le> now)
         \<and> Task.id' t' = Task.id' t
         \<and> Task.created_at t' = Task.created_at t
         \<and> (\<forall>j. j \<noteq> i \<longrightarrow> fst (TaskStorage_get self' j) = fst (TaskStorage_get self j))
         \<and> map fst (tasks self') = map fst (tasks self)
         \<and> next_id self' = next_id self))
   \<and> (fst (TaskStorage_get self i) = None \<longrightarrow>
         TaskStorage_update self i title' description' status' now = (None, self))
   \<and> (fst (TaskStorage_get (task_storage st) i) = None \<longrightarrow>
         update_task st i task_data now
           = (Inl (HTTPException 404 (''Task with id '' @ str_int i @ '' not found'')), st))"
proof (intro conjI impI)
  assume a: "fst (TaskStorage_get self i) = Some t"
  then have g: "dict_get (tasks self) i = Some t"
    by (simp add: TaskStorage_get_def)
  show "\<exists>t' self'. TaskStorage_update self i title' description' status' now = (Some t', self')
         \<and> fst (TaskStorage_get self' i) = Some t'
         \<and> Task.title t' = (case title' of None \<Rightarrow> Task.title t | Some v \<Rightarrow> v)
         \<and> Task.description t'
             = (case description' of None \<Rightarrow> Task.description t | Some v \<Rightarrow> Some v)
         \<and> Task.status t' = (case status' of None \<Rightarrow> Task.status t | Some v \<Rightarrow> v)
         \<and> Task.updated_at t' = now
         \<and> (Task.updated_at t \<le> Task.updated_at t') = (Task.updated_at t \<le> now)
         \<and> Task.id' t' = Task.id' t
         \<and> Task.created_at t' = Task.created_at t
         \<and> (\<forall>j. j \<noteq> i \<longrightarrow> fst (TaskStorage_get self' j) = fst (TaskStorage_get self j))
         \<and> map fst (tasks self') = map fst (tasks self)
         \<and> next_id self' = next_id self"
    using g
    by (simp add: TaskStorage_update_def TaskStorage_get_def Let_def dict_get_set dict_set_keys
        split: option.split)
next
  assume "fst (TaskStorage_get self i) = None"
  then show "TaskStorage_update self i title' description' status' now = (None, self)"
    by (simp add: TaskStorage_update_def TaskStorage_get_def)
next
  assume "fst (TaskStorage_get (task_storage st) i) = None"
  then show "update_task st i task_data now
           = (Inl (HTTPException 404 (''Task with id '' @ str_int i @ '' not found'')), st)"
    by (simp add: update_task_def TaskStorage_update_def TaskStorage_get_def HTTP_404_NOT_FOUND_def)
qed

theorem update_task_fields_witness:
  "TaskStorage_update (run TaskStorage_init [Create ''T'' (Some ''d'') ''pending'' 5]) 1
       None None (Some ''completed'') 9
     = (Some \<lparr>Task.id' = 1, title = ''T'', description = Some ''d'', status = ''completed'',
               created_at = 5, updated_at = 9\<rparr>,
        \<lparr>tasks = [(1, \<lparr>Task.id' = 1, title = ''T'', description = Some ''d'',
                         status = ''completed'', created_at = 5, updated_at = 9\<rparr>)],
          next_id = 2\<rparr>)
   \<and> fst (TaskStorage_update (run TaskStorage_init [Create ''T'' (Some ''d'') ''pending'' 5]) 1
            None None None 9)
     = Some \<lparr>Task.id' = 1, title = ''T'', description = Some ''d'', status = ''pending'',
              created_at = 5, updated_at = 9\<rparr>
   \<and> (5::nat) \<le> 9
   \<and> TaskStorage_update (run TaskStorage_init [Create ''T'' (Some ''d'') ''pending'' 5]) 2
       (Some ''U'') None None 9
     = (None, run TaskStorage_init [Create ''T'' (Some ''d'') ''pending'' 5])
   \<and> update_task app_init 2 \<lparr>TaskUpdate.title = Some ''U'', description = None, status = None\<rparr> 9
     = (Inl (HTTPException 404 ''Task with id 2 not found''), app_init)"
  using update_task_fields [of "run TaskStorage_init [Create ''T'' (Some ''d'') ''pending'' 5]" 1
      "\<lparr>Task.id' = 1, title = ''T'', description = Some ''d'', status = ''pending'',
        created_at = 5, updated_at = 5\<rparr>" None None "Some ''completed''" 9]
    update_task_fields [of "run TaskStorage_init [Create ''T'' (Some ''d'') ''pending'' 5]" 2
      _ "Some ''U''" None None 9 app_init
      "\<lparr>TaskUpdate.title = Some ''U'', description = None, status = None\<rparr>"]
  by (simp add: TaskStorage_init_def TaskStorage_create_def TaskStorage_get_def TaskStorage_get_all_def
      TaskStorage_update_def TaskStorage_delete_def dict_get_def dict_set_def dict_del_def
      dict_contains_def dict_values_def Let_def app_init_def update_task_def HTTP_404_NOT_FOUND_def str_int_def str_nat.simps
      digit_char_def)

text \<open>
  \<^verbatim>\<open>update\<close> stores the reading of the wall clock and compares it with nothing: a reading
  below the stored \<^verbatim>\<open>updated_at\<close> takes \<^verbatim>\<open>updated_at\<close> back.
\<close>

theorem update_clock_back_counterexample:
  "fst (TaskStorage_get (run TaskStorage_init [Create ''T'' None ''pending'' 9]) 1)
     = Some \<lparr>Task.id' = 1, title = ''T'', description = None, status = ''pending'',
              created_at = 9, updated_at = 9\<rparr>
   \<and> fst (TaskStorage_update (run TaskStorage_init [Create ''T'' None ''pending'' 9]) 1
            None None (Some ''completed'') 5)
     = Some \<lparr>Task.id' = 1, title = ''T'', description = None, status = ''completed'',
              created_at = 9, updated_at = 5\<rparr>
   \<and> \<not> (9::nat) \<le> 5"
  by (simp add: TaskStorage_init_def TaskStorage_create_def TaskStorage_get_def
      TaskStorage_update_def dict_get_def dict_set_def Let_def)

text \<open>
  C9. No call of \<^verbatim>\<open>update\<close> or \<^verbatim>\<open>update_task\<close>, on any id and with any arguments, makes the
  description of a stored task \<^verbatim>\<open>None\<close> once it is set: a \<^verbatim>\<open>None\<close> argument leaves the
  stored description as it is, and any other argument stores a description.
\<close>

theorem update_keeps_description:
  "fst (TaskStorage_get self k) = Some t \<Longrightarrow> Task.description t \<noteq> None \<Longrightarrow>
   (\<exists>t'. fst (TaskStorage_get (snd (TaskStorage_update self i title' description' status' now)) k)
           = Some t'
      \<and> Task.description t' \<noteq> None
      \<and> (description' = None \<longrightarrow> Task.description t' = Task.description t))
   \<and> (\<exists>t'. fst (TaskStorage_get (task_storage (snd (update_task \<lparr>task_storage = self, job_storage = js\<rparr> i task_data now))) k)
           = Some t'
      \<and> Task.description t' \<noteq> None
      \<and> (TaskUpdate.description task_data = None \<longrightarrow> Task.description t' = Task.description t))"
  by (cases "dict_get (tasks self) i")
    (auto simp add: TaskStorage_update_def update_task_def TaskStorage_get_def Let_def dict_get_set
      split: option.split)

theorem update_keeps_description_witness:
  "fst (TaskStorage_get (snd (TaskStorage_update
          (run TaskStorage_init [Create ''T'' (Some ''d'') ''pending'' 5]) 1
          (Some ''U'') None (Some ''completed'') 9)) 1)
     = Some \<lparr>Task.id' = 1, title = ''U'', description = Some ''d'', status = ''completed'',
              created_at = 5, updated_at = 9\<rparr>
   \<and> fst (TaskStorage_get (snd (TaskStorage_update
          (run TaskStorage_init [Create ''T'' (Some ''d'') ''pending'' 5]) 1
          None (Some '''') None 9)) 1)
     = Some \<lparr>Task.id' = 1, title = ''T'', description = Some '''', status = ''pending'',
              created_at = 5, updated_at = 9\<rparr>"
  using update_keeps_description [of "run TaskStorage_init [Create ''T'' (Some ''d'') ''pending'' 5]"
      1 "\<lparr>Task.id' = 1, title = ''T'', description = Some ''d'', status = ''pending'',
        created_at = 5, updated_at = 5\<rparr>" 1 "Some ''U''" None "Some ''completed''" 9]
  by (simp add: TaskStorage_init_def TaskStorage_create_def TaskStorage_get_def TaskStorage_get_all_def
      TaskStorage_update_def TaskStorage_delete_def dict_get_def dict_set_def dict_del_def
      dict_contains_def dict_values_def Let_def)

section \<open>Reading\<close>

text \<open>
  C10. \<^verbatim>\<open>get\<close> and \<^verbatim>\<open>get_all\<close> of the task store, \<^verbatim>\<open>get\<close> of the job store and the handlers
  \<^verbatim>\<open>get_task\<close>, \<^verbatim>\<open>list_tasks\<close> and \<^verbatim>\<open>get_job_status\<close> return the state they were given, both
  stores included, for every state and every argument.
\<close>

theorem reads_leave_stores:
  "snd (TaskStorage_get self i) = self
   \<and> snd (TaskStorage_get_all self f) = self
   \<and> snd (JobStorage_get js j) = js
   \<and> snd (get_task st i) = st
   \<and> snd (list_tasks st f) = st
   \<and> snd (get_job_status st j) = st"
  by (simp add: TaskStorage_get_def TaskStorage_get_all_def JobStorage_get_def get_task_def
      list_tasks_def get_job_status_def split: option.split)

theorem reads_leave_stores_witness:
  "snd (get_task app_init 7) = app_init
   \<and> snd (list_tasks app_init (Some ''pending'')) = app_init
   \<and> snd (get_job_status app_init ''job-0'') = app_init"
  using reads_leave_stores [of TaskStorage_init 7 "Some ''pending''" JobStorage_init "''job-0''"
      app_init]
  by simp

section \<open>The status filter of the list handler\<close>

text \<open>
  C6, as the code has it. A filter that is not empty and is none of \<^verbatim>\<open>pending\<close>,
  \<^verbatim>\<open>in_progress\<close>, \<^verbatim>\<open>completed\<close> is rejected with status 400: the answer is the same for
  every state, and the state is unchanged. The empty string is not rejected: it is taken
  as no filter, and the handler returns every task.
\<close>

theorem list_tasks_rejects:
  "(s \<noteq> [] \<and> s \<notin> {''pending'', ''in_progress'', ''completed''} \<longrightarrow>
      list_tasks st (Some s)
        = (Inl (HTTPException 400
                 ''Invalid status filter. Must be: pending, in_progress, or completed''), st)
      \<and> fst (list_tasks st' (Some s)) = fst (list_tasks st (Some s)))
   \<and> list_tasks st (Some []) = (Inr (dict_values (tasks (task_storage st))), st)"
  by (simp add: list_tasks_def HTTP_400_BAD_REQUEST_def TaskStorage_get_all_def)

theorem list_tasks_rejects_witness:
  "''done'' \<noteq> '''' \<and> ''done'' \<notin> {''pending'', ''in_progress'', ''completed''}
   \<and> list_tasks \<lparr>task_storage = run TaskStorage_init [Create ''T'' None ''pending'' 5],
                   job_storage = JobStorage_init\<rparr> (Some ''done'')
     = (Inl (HTTPException 400
              ''Invalid status filter. Must be: pending, in_progress, or completed''),
        \<lparr>task_storage = run TaskStorage_init [Create ''T'' None ''pending'' 5],
          job_storage = JobStorage_init\<rparr>)
   \<and> fst (list_tasks app_init (Some ''done''))
     = Inl (HTTPException 400
             ''Invalid status filter. Must be: pending, in_progress, or completed'')"
  using list_tasks_rejects [of "''done''"
      "\<lparr>task_storage = run TaskStorage_init [Create ''T'' None ''pending'' 5],
        job_storage = JobStorage_init\<rparr>" app_init]
  by simp

text \<open>
  The empty string is outside the three statuses, and the handler answers it with the
  whole list instead of an error.
\<close>

theorem list_tasks_empty_filter_counterexample:
  "'''' \<notin> {''pending'', ''in_progress'', ''completed''}
   \<and> fst (list_tasks \<lparr>task_storage = run TaskStorage_init [Create ''T'' None ''pending'' 5],
                       job_storage = JobStorage_init\<rparr> (Some ''''))
     = Inr [\<lparr>Task.id' = 1, title = ''T'', description = None, status = ''pending'',
              created_at = 5, updated_at = 5\<rparr>]"
  by (simp add: list_tasks_def TaskStorage_init_def TaskStorage_create_def TaskStorage_get_def TaskStorage_get_all_def
      TaskStorage_update_def TaskStorage_delete_def dict_get_def dict_set_def dict_del_def
      dict_contains_def dict_values_def Let_def)

section \<open>Ids and order of the task store\<close>

lemma apply_call_next_id:
  "next_id (apply_call self c) = next_id self + (if is_Create c then 1 else 0)"
  by (cases c)
    (simp_all add: TaskStorage_create_def TaskStorage_get_def TaskStorage_get_all_def
      TaskStorage_update_def TaskStorage_delete_def dict_del_def Let_def
      split: option.split sum.split)

lemma assigned_id_eq: "assigned_id self c = (if is_Create c then [next_id self] else [])"
  by (cases c) (simp_all add: TaskStorage_create_def Let_def)

lemma run_next_id: "next_id (run self cs) = next_id self + int (length (filter is_Create cs))"
  by (induction cs arbitrary: self) (simp_all add: apply_call_next_id)

lemma assigned_ids_upto:
  "assigned_ids self cs = [next_id self .. next_id self + int (length (filter is_Create cs)) - 1]"
proof (induction cs arbitrary: self)
  case Nil
  show ?case by simp
next
  case (Cons c cs)
  show ?case
  proof (cases "is_Create c")
    case True
    then show ?thesis
      by (simp add: Cons.IH assigned_id_eq apply_call_next_id upto_rec1 [of "next_id self"])
  next
    case False
    then show ?thesis
      by (simp add: Cons.IH assigned_id_eq apply_call_next_id)
  qed
qed

lemma keys_ok_init: "keys_ok TaskStorage_init"
  by (simp add: keys_ok_def TaskStorage_init_def)

lemma keys_ok_fresh: "keys_ok self \<Longrightarrow> next_id self \<notin> fst ` set (tasks self)"
  by (auto simp add: keys_ok_def list_all_iff)

lemma keys_ok_create: "keys_ok self \<Longrightarrow> keys_ok (snd (TaskStorage_create self t d s now))"
  using keys_ok_fresh [of self]
  by (auto simp add: keys_ok_def TaskStorage_create_def Let_def dict_set_fresh sorted_wrt_append list_all_iff)

lemma keys_ok_set:
  assumes "keys_ok self" and "dict_get (tasks self) i \<noteq> None" and "Task.id' v = i"
  shows "keys_ok (self\<lparr>tasks := dict_set (tasks self) i v\<rparr>)"
proof -
  have k: "map fst (dict_set (tasks self) i v) = map fst (tasks self)"
    using assms(2) by (rule dict_set_keys)
  have "list_all (\<lambda>(k, t). Task.id' t = k) (dict_set (tasks self) i v)"
    using assms(1,3) update_entries [of _ _ i v "tasks self"]
    by (fastforce simp add: keys_ok_def list_all_iff dict_set_def)
  then show ?thesis
    using assms(1) k by (simp add: keys_ok_def)
qed

lemma keys_ok_update: "keys_ok self \<Longrightarrow> keys_ok (snd (TaskStorage_update self i t d s now))"
proof (cases "dict_get (tasks self) i")
  case None
  assume "keys_ok self"
  with None show ?thesis by (simp add: TaskStorage_update_def)
next
  case (Some w)
  assume k: "keys_ok self"
  from Some have "(i, w) \<in> set (tasks self)"
    by (simp add: dict_get_def map_of_SomeD)
  with k have iw: "Task.id' w = i"
    by (auto simp add: keys_ok_def list_all_iff)
  show ?thesis
    using Some iw
    by (simp add: TaskStorage_update_def Let_def keys_ok_set [OF k] split: option.split)
qed

lemma keys_ok_delete: "keys_ok self \<Longrightarrow> keys_ok (apply_call self (Delete i))"
  by (auto simp add: keys_ok_def TaskStorage_delete_def dict_del_def AList.delete_eq list_all_iff
      sorted_wrt_map sorted_wrt_filter split: sum.split)

lemma keys_ok_apply: "keys_ok self \<Longrightarrow> keys_ok (apply_call self c)"
proof (cases c)
  case (Delete i)
  assume "keys_ok self"
  then show ?thesis unfolding Delete by (rule keys_ok_delete)
qed (simp_all add: keys_ok_create keys_ok_update TaskStorage_get_def TaskStorage_get_all_def
    split: option.split)

lemma keys_ok_run: "keys_ok self \<Longrightarrow> keys_ok (run self cs)"
  by (induction cs arbitrary: self) (simp_all add: keys_ok_apply)

lemma get_all_delete:
  assumes "keys_ok self"
  shows "fst (TaskStorage_get_all (apply_call self (Delete i)) None)
         = filter (\<lambda>t. Task.id' t \<noteq> i) (fst (TaskStorage_get_all self None))"
proof (cases "dict_contains (tasks self) i")
  case True
  then show ?thesis
    using assms filter_snd_entries [of "Task.id'" "tasks self" i]
    by (simp add: TaskStorage_get_all_def TaskStorage_delete_def dict_del_def dict_values_def
        AList.delete_eq keys_ok_def)
next
  case False
  then have "i \<notin> fst ` set (tasks self)"
    by (simp add: dict_contains_def map_of_eq_None_iff)
  then have "filter (\<lambda>(k, t). i \<noteq> k) (tasks self) = tasks self"
    by (force simp add: filter_id_conv)
  then show ?thesis
    using False assms filter_snd_entries [of "Task.id'" "tasks self" i]
    by (simp add: TaskStorage_get_all_def TaskStorage_delete_def dict_values_def keys_ok_def)
qed

lemma get_all_create:
  assumes "keys_ok self"
  shows "fst (TaskStorage_get_all (snd (TaskStorage_create self t d s now)) None)
         = fst (TaskStorage_get_all self None) @ [fst (TaskStorage_create self t d s now)]"
  using keys_ok_fresh [OF assms]
  by (simp add: TaskStorage_get_all_def TaskStorage_create_def Let_def dict_set_fresh dict_values_def)

lemma get_all_update:
  shows "map Task.id' (fst (TaskStorage_get_all (snd (TaskStorage_update self i t d s now)) None))
         = map Task.id' (fst (TaskStorage_get_all self None))"
proof (cases "dict_get (tasks self) i")
  case None
  then show ?thesis by (simp add: TaskStorage_update_def)
next
  case (Some w)
  then show ?thesis
    by (simp add: TaskStorage_update_def TaskStorage_get_all_def Let_def
        dict_set_present_values [of _ _ w] split: option.split)
qed

lemma get_all_sorted:
  assumes "keys_ok self"
  shows "sorted_wrt (<) (map Task.id' (fst (TaskStorage_get_all self None)))"
proof -
  have "list_all (\<lambda>(k, t). Task.id' t = k) (tasks self)"
    using assms by (simp add: keys_ok_def)
  then have "map Task.id' (map snd (tasks self)) = map fst (tasks self)"
    by (rule own_id_keys)
  then show ?thesis
    using assms by (simp add: keys_ok_def TaskStorage_get_all_def dict_values_def del: map_map)
qed

text \<open>
  C3. In every sequence of calls from the empty store, the \<^verbatim>\<open>create\<close> calls assign the ids
  1, 2, 3, ... in order: each is above every id assigned before it and none occurs twice,
  whatever was deleted in between. A task created after the sequence gets the next id,
  has \<^verbatim>\<open>created_at\<close> and \<^verbatim>\<open>updated_at\<close> equal to the clock reading of the call, is in the
  list that \<^verbatim>\<open>get_all\<close> returns right after, and is what \<^verbatim>\<open>get\<close> returns for its id.
\<close>

theorem create_assigns_fresh_ids:
  "assigned_ids TaskStorage_init cs = [1 .. int (length (filter is_Create cs))]
   \<and> sorted_wrt (<) (assigned_ids TaskStorage_init cs)
   \<and> distinct (assigned_ids TaskStorage_init cs)
   \<and> (let r = TaskStorage_create (run TaskStorage_init cs) t d s now in
        Task.id' (fst r) = int (length (filter is_Create cs)) + 1
        \<and> (\<forall>i \<in> set (assigned_ids TaskStorage_init cs). i < Task.id' (fst r))
        \<and> Task.created_at (fst r) = now
        \<and> Task.updated_at (fst r) = Task.created_at (fst r)
        \<and> fst r \<in> set (fst (TaskStorage_get_all (snd r) None))
        \<and> fst (TaskStorage_get (snd r) (Task.id' (fst r))) = Some (fst r))"
proof -
  have a: "assigned_ids TaskStorage_init cs = [1 .. int (length (filter is_Create cs))]"
    by (simp add: assigned_ids_upto TaskStorage_init_def)
  have n: "next_id (run TaskStorage_init cs) = int (length (filter is_Create cs)) + 1"
    by (simp add: run_next_id TaskStorage_init_def)
  have k: "keys_ok (run TaskStorage_init cs)"
    by (rule keys_ok_run [OF keys_ok_init])
  show ?thesis
    using n get_all_create [OF k, of t d s now]
    by (simp add: a Let_def) (simp add: TaskStorage_create_def TaskStorage_get_def Let_def dict_get_set)
qed

theorem create_assigns_fresh_ids_witness:
  "assigned_ids TaskStorage_init
       [Create ''A'' None ''pending'' 1, Create ''B'' None ''pending'' 2, Delete 2,
        Create ''C'' None ''pending'' 3] = [1, 2, 3]
   \<and> fst (TaskStorage_create (run TaskStorage_init
       [Create ''A'' None ''pending'' 1, Create ''B'' None ''pending'' 2, Delete 2,
        Create ''C'' None ''pending'' 3]) ''D'' None ''pending'' 4)
     = \<lparr>Task.id' = 4, title = ''D'', description = None, status = ''pending'',
         created_at = 4, updated_at = 4\<rparr>
   \<and> (1::int) < 4 \<and> (2::int) < 4 \<and> (3::int) < 4
   \<and> map Task.id' (fst (TaskStorage_get_all (snd (TaskStorage_create (run TaskStorage_init
       [Create ''A'' None ''pending'' 1, Create ''B'' None ''pending'' 2, Delete 2,
        Create ''C'' None ''pending'' 3]) ''D'' None ''pending'' 4)) None)) = [1, 3, 4]"
  using create_assigns_fresh_ids [of
      "[Create ''A'' None ''pending'' 1, Create ''B'' None ''pending'' 2, Delete 2,
        Create ''C'' None ''pending'' 3]" "''D''" None "''pending''" 4]
  by (simp add: TaskStorage_init_def TaskStorage_create_def TaskStorage_get_def TaskStorage_get_all_def
      TaskStorage_update_def TaskStorage_delete_def dict_get_def dict_set_def dict_del_def
      dict_contains_def dict_values_def Let_def)

text \<open>
  C5. With a filter \<open>s\<close> that is one of the three task statuses, \<^verbatim>\<open>get_all\<close> returns exactly
  the tasks of status \<open>s\<close>, in the order of the unfiltered list; without a filter it
  returns every task in the order of the dictionary. After any sequence of calls from the
  empty store that order is the order of insertion: the ids ascend, a created task goes
  to the end, an update keeps every task in its place, and a delete takes out the task of
  that id only.
\<close>

theorem get_all_filter_order:
  "(s \<in> {''pending'', ''in_progress'', ''completed''} \<longrightarrow>
      fst (TaskStorage_get_all self (Some s))
        = filter (\<lambda>task. Task.status task = s) (fst (TaskStorage_get_all self None)))
   \<and> fst (TaskStorage_get_all self None) = map snd (tasks self)
   \<and> (let st = run TaskStorage_init cs in
        sorted_wrt (<) (map Task.id' (fst (TaskStorage_get_all st None)))
        \<and> fst (TaskStorage_get_all (snd (TaskStorage_create st t d s1 now)) None)
            = fst (TaskStorage_get_all st None) @ [fst (TaskStorage_create st t d s1 now)]
        \<and> map Task.id' (fst (TaskStorage_get_all (snd (TaskStorage_update st i t2 d2 s2 now)) None))
            = map Task.id' (fst (TaskStorage_get_all st None))
        \<and> fst (TaskStorage_get_all (apply_call st (Delete i)) None)
            = filter (\<lambda>task. Task.id' task \<noteq> i) (fst (TaskStorage_get_all st None)))"
proof -
  have k: "keys_ok (run TaskStorage_init cs)"
    by (rule keys_ok_run [OF keys_ok_init])
  have "s \<in> {''pending'', ''in_progress'', ''completed''} \<longrightarrow>
      fst (TaskStorage_get_all self (Some s))
        = filter (\<lambda>task. Task.status task = s) (fst (TaskStorage_get_all self None))"
    by (auto simp add: TaskStorage_get_all_def)
  moreover have "fst (TaskStorage_get_all self None) = map snd (tasks self)"
    by (simp add: TaskStorage_get_all_def dict_values_def)
  ultimately show ?thesis
    using get_all_sorted [OF k] get_all_create [OF k] get_all_delete [OF k] get_all_update
    by (simp add: Let_def)
qed

theorem get_all_filter_order_witness:
  "''pending'' \<in> {''pending'', ''in_progress'', ''completed''}
   \<and> map Task.title (fst (TaskStorage_get_all (run TaskStorage_init
        [Create ''A'' None ''pending'' 1, Create ''B'' None ''completed'' 2,
         Create ''C'' None ''pending'' 3, Update 1 None (Some ''d'') None 4])
        (Some ''pending''))) = [''A'', ''C'']
   \<and> map Task.title (fst (TaskStorage_get_all (run TaskStorage_init
        [Create ''A'' None ''pending'' 1, Create ''B'' None ''completed'' 2,
         Create ''C'' None ''pending'' 3, Update 1 None (Some ''d'') None 4])
        None)) = [''A'', ''B'', ''C'']
   \<and> map Task.title (fst (TaskStorage_get_all (apply_call (run TaskStorage_init
        [Create ''A'' None ''pending'' 1, Create ''B'' None ''completed'' 2,
         Create ''C'' None ''pending'' 3, Update 1 None (Some ''d'') None 4]) (Delete 2))
        None)) = [''A'', ''C'']"
  using get_all_filter_order [of "''pending''" "run TaskStorage_init
        [Create ''A'' None ''pending'' 1, Create ''B'' None ''completed'' 2,
         Create ''C'' None ''pending'' 3, Update 1 None (Some ''d'') None 4]"
        "[Create ''A'' None ''pending'' 1, Create ''B'' None ''completed'' 2,
         Create ''C'' None ''pending'' 3, Update 1 None (Some ''d'') None 4]"
        "''D''" None "''pending''" 5 2 None None None]
  by (simp add: TaskStorage_init_def TaskStorage_create_def TaskStorage_get_def TaskStorage_get_all_def
      TaskStorage_update_def TaskStorage_delete_def dict_get_def dict_set_def dict_del_def
      dict_contains_def dict_values_def Let_def)

section \<open>The job store and the lifecycle runner\<close>

lemma create_job_invariant:
  "job_invariant self \<Longrightarrow> job_invariant (snd (JobStorage_create self job_id data' now))"
  by (simp add: job_invariant_def JobStorage_create_def Let_def dict_set_values_all
      completed_at_iff_completed_def)

lemma update_status_invariant:
  assumes "job_invariant self"
    and "status' = ''completed''
         \<or> (case fst (JobStorage_get self job_id) of None \<Rightarrow> True
             | Some job \<Rightarrow> completed_at job = None)"
  shows "job_invariant (snd (JobStorage_update_status self job_id status' result' now))"
proof (cases "dict_get (jobs self) job_id")
  case None
  with assms(1) show ?thesis by (simp add: JobStorage_update_status_def)
next
  case (Some job)
  then have "completed_at_iff_completed job"
    using assms(1) dict_get_values [OF Some] by (simp add: job_invariant_def list_all_iff)
  then show ?thesis
    using assms Some
    by (auto simp add: JobStorage_update_status_def JobStorage_get_def Let_def job_invariant_def
        completed_at_iff_completed_def intro!: dict_set_values_all split: option.split)
qed

lemma update_status_stored:
  assumes "fst (JobStorage_get self job_id) = Some job"
  shows "fst (JobStorage_get (snd (JobStorage_update_status self job_id status' result' now)) job_id)
     = Some (job\<lparr>ProcessJob.status := status',
                 result := (case result' of None \<Rightarrow> result job | Some r \<Rightarrow> Some r),
                 completed_at := (if status' = ''completed'' then Some now
                                  else completed_at job)\<rparr>)"
  using assms
  by (simp add: JobStorage_update_status_def JobStorage_get_def Let_def dict_get_set
      split: option.split)

lemma update_status_others:
  "k \<noteq> job_id \<Longrightarrow>
   fst (JobStorage_get (snd (JobStorage_update_status self job_id status' result' now)) k)
     = fst (JobStorage_get self k)"
  by (simp add: JobStorage_update_status_def JobStorage_get_def Let_def dict_get_set
      split: option.split)

text \<open>
  C2, as the code has it. The empty job store satisfies the invariant, a created job
  satisfies it, and \<^verbatim>\<open>create\<close> keeps it. \<^verbatim>\<open>update_status\<close> keeps it when the status argument
  is \<^verbatim>\<open>completed\<close>, or when the job of that id is absent or has no \<^verbatim>\<open>completed_at\<close> yet.
  \<^verbatim>\<open>update_status\<close> never clears \<^verbatim>\<open>completed_at\<close>: after a call with any arguments a job that
  had it set still has it set, and a call with another status than \<^verbatim>\<open>completed\<close> leaves
  its value as it was while the job of that id takes the new status.
\<close>

theorem job_invariant_kept:
  "job_invariant JobStorage_init
   \<and> completed_at_iff_completed (fst (JobStorage_create self job_id data' now))
   \<and> (job_invariant self \<longrightarrow> job_invariant (snd (JobStorage_create self job_id data' now)))
   \<and> (job_invariant self
        \<and> (status' = ''completed''
            \<or> (case fst (JobStorage_get self job_id) of None \<Rightarrow> True
                | Some j \<Rightarrow> completed_at j = None)) \<longrightarrow>
       job_invariant (snd (JobStorage_update_status self job_id status' result' now)))
   \<and> (fst (JobStorage_get self k) = Some job \<and> completed_at job \<noteq> None \<longrightarrow>
        (\<exists>job'. fst (JobStorage_get
                        (snd (JobStorage_update_status self job_id status' result' now)) k)
                  = Some job'
           \<and> completed_at job' \<noteq> None
           \<and> (status' \<noteq> ''completed'' \<longrightarrow> completed_at job' = completed_at job
                \<and> (k = job_id \<longrightarrow> ProcessJob.status job' = status'))))"
proof (intro conjI impI)
  show "job_invariant JobStorage_init"
    by (simp add: job_invariant_def JobStorage_init_def dict_values_def)
next
  show "completed_at_iff_completed (fst (JobStorage_create self job_id data' now))"
    by (simp add: JobStorage_create_def Let_def completed_at_iff_completed_def)
next
  assume "job_invariant self"
  then show "job_invariant (snd (JobStorage_create self job_id data' now))"
    by (rule create_job_invariant)
next
  assume "job_invariant self
        \<and> (status' = ''completed''
            \<or> (case fst (JobStorage_get self job_id) of None \<Rightarrow> True
                | Some j \<Rightarrow> completed_at j = None))"
  then show "job_invariant (snd (JobStorage_update_status self job_id status' result' now))"
    using update_status_invariant [of self status' job_id result' now] by blast
next
  assume a: "fst (JobStorage_get self k) = Some job \<and> completed_at job \<noteq> None"
  show "\<exists>job'. fst (JobStorage_get
                        (snd (JobStorage_update_status self job_id status' result' now)) k)
                  = Some job'
           \<and> completed_at job' \<noteq> None
           \<and> (status' \<noteq> ''completed'' \<longrightarrow> completed_at job' = completed_at job
                \<and> (k = job_id \<longrightarrow> ProcessJob.status job' = status'))"
  proof (cases "k = job_id")
    case True
    with a show ?thesis
      using update_status_stored [of self job_id job status' result' now] by simp
  next
    case False
    with a show ?thesis
      using update_status_others [of k job_id self status' result' now] by simp
  qed
qed

theorem job_invariant_kept_witness:
  "job_invariant (snd (JobStorage_create JobStorage_init ''job-1'' [''a''] 1))
   \<and> job_invariant (snd (JobStorage_update_status
        (snd (JobStorage_create JobStorage_init ''job-1'' [''a''] 1))
        ''job-1'' ''processing'' None 3))
   \<and> job_invariant (snd (JobStorage_update_status
        (snd (JobStorage_update_status
           (snd (JobStorage_create JobStorage_init ''job-1'' [''a''] 1))
           ''job-1'' ''completed'' (Some ''r'') 5))
        ''job-1'' ''completed'' (Some ''r2'') 9))
   \<and> fst (JobStorage_get (snd (JobStorage_update_status
        (snd (JobStorage_update_status
           (snd (JobStorage_create JobStorage_init ''job-1'' [''a''] 1))
           ''job-1'' ''completed'' (Some ''r'') 5))
        ''job-1'' ''queued'' None 9)) ''job-1'')
     = Some \<lparr>ProcessJob.id' = ''job-1'', status = ''queued'', data = [''a''],
              result = Some ''r'', created_at = 1, completed_at = Some 5\<rparr>"
  using job_invariant_kept [of JobStorage_init "''job-1''" "[''a'']" 1]
    job_invariant_kept [of "snd (JobStorage_create JobStorage_init ''job-1'' [''a''] 1)"
      "''job-1''" "[''a'']" 3 "''processing''" None]
    job_invariant_kept [of "snd (JobStorage_update_status
           (snd (JobStorage_create JobStorage_init ''job-1'' [''a''] 1))
           ''job-1'' ''completed'' (Some ''r'') 5)"
      "''job-1''" "[''a'']" 9 "''completed''" "Some ''r2''"]
    job_invariant_kept [of "snd (JobStorage_update_status
           (snd (JobStorage_create JobStorage_init ''job-1'' [''a''] 1))
           ''job-1'' ''completed'' (Some ''r'') 5)"
      "''job-1''" "[''a'']" 9 "''queued''" None "''job-1''"
      "\<lparr>ProcessJob.id' = ''job-1'', status = ''completed'', data = [''a''],
        result = Some ''r'', created_at = 1, completed_at = Some 5\<rparr>"]
  by (simp add: JobStorage_init_def JobStorage_create_def JobStorage_get_def
      JobStorage_update_status_def dict_get_def dict_set_def dict_values_def Let_def
      job_invariant_def completed_at_iff_completed_def)

text \<open>
  A completed job keeps its \<^verbatim>\<open>completed_at\<close> when \<^verbatim>\<open>update_status\<close> gives it another status:
  the store satisfies the invariant before the call and not after it.
\<close>

theorem completed_job_restatus_counterexample:
  "job_invariant (snd (JobStorage_update_status
        (snd (JobStorage_create JobStorage_init ''job-1'' [''a''] 1))
        ''job-1'' ''completed'' (Some ''r'') 5))
   \<and> \<not> job_invariant (snd (JobStorage_update_status
        (snd (JobStorage_update_status
           (snd (JobStorage_create JobStorage_init ''job-1'' [''a''] 1))
           ''job-1'' ''completed'' (Some ''r'') 5))
        ''job-1'' ''processing'' None 9))
   \<and> fst (JobStorage_get (snd (JobStorage_update_status
        (snd (JobStorage_update_status
           (snd (JobStorage_create JobStorage_init ''job-1'' [''a''] 1))
           ''job-1'' ''completed'' (Some ''r'') 5))
        ''job-1'' ''processing'' None 9)) ''job-1'')
     = Some \<lparr>ProcessJob.id' = ''job-1'', status = ''processing'', data = [''a''],
              result = Some ''r'', created_at = 1, completed_at = Some 5\<rparr>"
  by (simp add: JobStorage_init_def JobStorage_create_def JobStorage_get_def
      JobStorage_update_status_def dict_get_def dict_set_def dict_values_def Let_def job_invariant_def completed_at_iff_completed_def)

subsection \<open>The strings of the result\<close>

lemma str_join_concat:
  "str_join sep xs = (case xs of [] \<Rightarrow> [] | x # ys \<Rightarrow> x @ concat (map (\<lambda>y. sep @ y) ys))"
  by (induction sep xs rule: str_join.induct) simp_all

lemma digit_cases:
  "d < 10 \<Longrightarrow> d = 0 \<or> d = 1 \<or> d = 2 \<or> d = 3 \<or> d = 4 \<or> d = 5 \<or> d = 6 \<or> d = 7 \<or> d = 8 \<or> d = (9::nat)"
  by arith

lemma digit_char_value: "d < 10 \<Longrightarrow> of_char (digit_char d) - 48 = d"
  using digit_cases [of d] by (auto simp add: digit_char_def)

lemma digit_char_digit: "d < 10 \<Longrightarrow> digit_char d \<in> set ''0123456789''"
  using digit_cases [of d] by (auto simp add: digit_char_def)

lemma digit_char_zero: "d < 10 \<Longrightarrow> digit_char d = CHR ''0'' \<Longrightarrow> d = 0"
  using digit_cases [of d] by (auto simp add: digit_char_def)

lemma decimal_value_snoc:
  "decimal_value (s @ [c]) = 10 * decimal_value s + (of_char c - 48)"
  by (simp add: decimal_value_def)

lemma decimal_value_str_nat: "decimal_value (str_nat n) = n"
proof (induction n rule: str_nat.induct)
  case (1 n)
  show ?case
  proof (cases "n < 10")
    case True
    then show ?thesis
      by (simp add: str_nat.simps [of n] decimal_value_def digit_char_value)
  next
    case False
    then have "decimal_value (str_nat (n div 10)) = n div 10"
      by (rule "1.IH")
    with False show ?thesis
      by (simp add: str_nat.simps [of n] decimal_value_snoc digit_char_value)
  qed
qed

lemma str_nat_digits: "set (str_nat n) \<subseteq> set ''0123456789''"
proof (induction n rule: str_nat.induct)
  case (1 n)
  show ?case
  proof (cases "n < 10")
    case True
    then show ?thesis
      using digit_char_digit [of n] by (simp add: str_nat.simps [of n])
  next
    case False
    then have "set (str_nat (n div 10)) \<subseteq> set ''0123456789''"
      by (rule "1.IH")
    then show ?thesis
      using False digit_char_digit [of "n mod 10"] by (simp add: str_nat.simps [of n])
  qed
qed

lemma str_nat_not_empty: "str_nat n \<noteq> []"
  by (simp add: str_nat.simps [of n])

lemma str_nat_leading_zero: "hd (str_nat n) = CHR ''0'' \<Longrightarrow> str_nat n = ''0''"
proof (induction n rule: str_nat.induct)
  case (1 n)
  show ?case
  proof (cases "n < 10")
    case True
    with "1.prems" have "n = 0"
      using digit_char_zero [of n] by (simp add: str_nat.simps [of n])
    then show ?thesis
      by (simp add: str_nat.simps [of 0] digit_char_def)
  next
    case False
    with "1.prems" have "hd (str_nat (n div 10)) = CHR ''0''"
      by (simp add: str_nat.simps [of n] str_nat_not_empty)
    with False have "str_nat (n div 10) = ''0''"
      by (rule "1.IH")
    then have "decimal_value (str_nat (n div 10)) = 0"
      by (simp add: decimal_value_def)
    then have "n div 10 = 0"
      by (simp add: decimal_value_str_nat)
    with False show ?thesis by simp
  qed
qed

text \<open>
  C1. For a job that is in the store and a delay from 0 to 10 seconds, which covers every
  delay that \<^verbatim>\<open>ProcessJobCreate\<close> admits, the runner returns normally after two writes. After
  the first the job has status \<^verbatim>\<open>processing\<close> and is otherwise as before. After the second
  it has status \<^verbatim>\<open>completed\<close>, \<^verbatim>\<open>completed_at\<close> set to the clock reading of the second write,
  and the result \<^verbatim>\<open>Processed N items: \<close> followed by the input values in their order, each
  but the first after a comma and a space; \<^verbatim>\<open>N\<close> is the number of input values in decimal
  digits, with no leading zero. The other jobs are as before throughout.
\<close>

theorem process_job_lifecycle:
  assumes "fst (JobStorage_get js job_id) = Some job" and "0 \<le> delay" and "delay \<le> 10"
  shows "\<exists>js1 js2 n. process_job_background js job_id data' delay now1 now2 = ([js1, js2], Inr ())
     \<and> fst (JobStorage_get js1 job_id) = Some (job\<lparr>ProcessJob.status := ''processing''\<rparr>)
     \<and> fst (JobStorage_get js2 job_id)
         = Some (job\<lparr>ProcessJob.status := ''completed'',
                     result := Some (''Processed '' @ n @ '' items: ''
                       @ (case data' of [] \<Rightarrow> []
                          | x # xs \<Rightarrow> x @ concat (map (\<lambda>y. '', '' @ y) xs))),
                     completed_at := Some now2\<rparr>)
     \<and> n \<noteq> [] \<and> set n \<subseteq> set ''0123456789'' \<and> decimal_value n = length data'
     \<and> (hd n = CHR ''0'' \<longrightarrow> n = ''0'')
     \<and> (\<forall>k. k \<noteq> job_id \<longrightarrow> fst (JobStorage_get js1 k) = fst (JobStorage_get js k)
                          \<and> fst (JobStorage_get js2 k) = fst (JobStorage_get js k))"
proof -
  have s: "sleep delay = Inr ()"
    using assms(2,3) by (simp add: sleep_def sleep_max_def)
  have g: "dict_get (jobs js) job_id = Some job"
    using assms(1) by (simp add: JobStorage_get_def)
  let ?n = "str_nat (length data')"
  have "process_job_background js job_id data' delay now1 now2
      = ([snd (JobStorage_update_status js job_id ''processing'' None now1),
          snd (JobStorage_update_status
                 (snd (JobStorage_update_status js job_id ''processing'' None now1)) job_id
                 ''completed''
                 (Some (''Processed '' @ ?n @ '' items: '' @ str_join '', '' data')) now2)],
         Inr ())"
    by (simp add: process_job_background_def s Let_def split_beta)
  moreover have "fst (JobStorage_get (snd (JobStorage_update_status js job_id ''processing'' None now1)) job_id)
      = Some (job\<lparr>ProcessJob.status := ''processing''\<rparr>)"
    using g by (simp add: JobStorage_update_status_def JobStorage_get_def Let_def dict_get_set)
  moreover have "fst (JobStorage_get (snd (JobStorage_update_status
                 (snd (JobStorage_update_status js job_id ''processing'' None now1)) job_id
                 ''completed''
                 (Some (''Processed '' @ ?n @ '' items: '' @ str_join '', '' data')) now2)) job_id)
      = Some (job\<lparr>ProcessJob.status := ''completed'',
                     result := Some (''Processed '' @ ?n @ '' items: ''
                       @ (case data' of [] \<Rightarrow> []
                          | x # xs \<Rightarrow> x @ concat (map (\<lambda>y. '', '' @ y) xs))),
                     completed_at := Some now2\<rparr>)"
    using g
    by (simp add: JobStorage_update_status_def JobStorage_get_def Let_def dict_get_set
        str_join_concat [of "'', ''" data'])
  moreover have "\<forall>k. k \<noteq> job_id \<longrightarrow>
      fst (JobStorage_get (snd (JobStorage_update_status js job_id ''processing'' None now1)) k)
        = fst (JobStorage_get js k)
      \<and> fst (JobStorage_get (snd (JobStorage_update_status
                 (snd (JobStorage_update_status js job_id ''processing'' None now1)) job_id
                 ''completed''
                 (Some (''Processed '' @ ?n @ '' items: '' @ str_join '', '' data')) now2)) k)
        = fst (JobStorage_get js k)"
    using g by (simp add: JobStorage_update_status_def JobStorage_get_def Let_def dict_get_set)
  moreover have "?n \<noteq> []" by (rule str_nat_not_empty)
  moreover have "set ?n \<subseteq> set ''0123456789''" by (rule str_nat_digits)
  moreover have "decimal_value ?n = length data'" by (rule decimal_value_str_nat)
  moreover have "hd ?n = CHR ''0'' \<longrightarrow> ?n = ''0''" using str_nat_leading_zero by blast
  ultimately show ?thesis by blast
qed

theorem process_job_lifecycle_witness:
  "fst (JobStorage_get (snd (JobStorage_create JobStorage_init ''job-1'' [''a'', ''b''] 1))
         ''job-1'')
     = Some \<lparr>ProcessJob.id' = ''job-1'', status = ''queued'', data = [''a'', ''b''],
              result = None, created_at = 1, completed_at = None\<rparr>
   \<and> (0::real) \<le> 1 / 10 \<and> (1::real) / 10 \<le> 10
   \<and> process_job_background (snd (JobStorage_create JobStorage_init ''job-1'' [''a'', ''b''] 1))
        ''job-1'' [''a'', ''b''] (1 / 10) 2 3
     = ([\<lparr>jobs = [(''job-1'', \<lparr>ProcessJob.id' = ''job-1'', status = ''processing'',
                      data = [''a'', ''b''], result = None, created_at = 1,
                      completed_at = None\<rparr>)]\<rparr>,
         \<lparr>jobs = [(''job-1'', \<lparr>ProcessJob.id' = ''job-1'', status = ''completed'',
                      data = [''a'', ''b''], result = Some ''Processed 2 items: a, b'',
                      created_at = 1, completed_at = Some 3\<rparr>)]\<rparr>],
        Inr ())
   \<and> decimal_value ''2'' = length [''a'', ''b'']"
  using process_job_lifecycle [of
      "snd (JobStorage_create JobStorage_init ''job-1'' [''a'', ''b''] 1)" "''job-1''"
      "\<lparr>ProcessJob.id' = ''job-1'', status = ''queued'', data = [''a'', ''b''],
        result = None, created_at = 1, completed_at = None\<rparr>" "1 / 10" "[''a'', ''b'']" 2 3]
  by (simp add: JobStorage_init_def JobStorage_create_def JobStorage_get_def
      JobStorage_update_status_def dict_get_def dict_set_def Let_def
      process_job_background_def sleep_def sleep_max_def str_nat.simps digit_char_def
      decimal_value_def)

end
